theory Spec2Isabelle
  imports Main "HOL-Library.AList"
begin

section \<open>Syntax trees\<close>

text \<open>
  The class loader reads the top-level statements of a parsed TypeScript file. Only the node
  shapes and the fields that \<^verbatim>\<open>ClassLoader\<close> inspects are kept. A node's \<^verbatim>\<open>loc.start\<close>
  is its \<open>position\<close>.
\<close>

record position =
  line :: nat
  column :: nat

datatype literal_value = StringValue string | OtherValue

datatype expression =
    Identifier (name: string) (start: position)
  | MemberExpression (object: expression) (property: expression) (start: position)
  | Literal (literal: literal_value) (start: position)
  | OtherExpression (start: position)

datatype type_node = TypeNode string

record type_parameter =
  param_name :: string
  constraint :: "type_node option"

record class_declaration =
  class_id :: "string option"
  superClass :: "expression option"
  class_typeParameters :: "type_parameter list option"
  abstract :: "bool option"
  class_start :: position

datatype heritage =
    TSInterfaceHeritage (heritage_expression: expression) (heritage_start: position)
  | OtherHeritage (heritage_start: position)

record interface_declaration =
  interface_id :: string
  extends :: "heritage list option"
  interface_typeParameters :: "type_parameter list option"
  interface_start :: position

record export_specifier =
  specifier_local :: string
  specifier_exported :: string

datatype import_clause =
    ImportSpecifier (clause_local: string) (clause_imported: string)
  | ImportDefaultSpecifier (clause_local: string)
  | ImportNamespaceSpecifier (clause_local: string)

datatype exported_declaration =
    ExportedClass class_declaration
  | ExportedInterface interface_declaration
  | ExportedOther

datatype statement =
    ExportNamedDeclaration "exported_declaration option" "expression option" "export_specifier list"
  | ExportAllDeclaration "expression option"
  | ClassDeclaration class_declaration
  | TSInterfaceDeclaration interface_declaration
  | ImportDeclaration expression "import_clause list"
  | OtherStatement

record ast =
  body :: "statement list"
  comments :: "string list"

section \<open>Errors\<close>

text \<open>
  Every \<^verbatim>\<open>throw new Error(...)\<close> of the class loader is one constructor, holding the
  values its message interpolates:
  \<^item> \<open>NamespacedSuperclass f l c\<close>: "Namespaced superclasses are currently not supported: f on line l column c";
  \<^item> \<open>UninterpretableSuperclass f l c\<close>: "Could not interpret type of superclass in f on line l column c";
  \<^item> \<open>UninterpretableSuperInterface f l c\<close>: "Could not interpret type of super interface in f on line l column c";
  \<^item> \<open>MissingExportedClassName f l c\<close>: "Export parsing failure: missing exported class name in f on line l column c";
  \<^item> \<open>CouldNotLoad ci n f\<close>: "Could not load class n from f", with "class or interface" when \<open>ci\<close>;
  \<^item> \<open>ParseFailure m\<close>: whatever the resolution context raises when a file cannot be parsed;
  \<^item> \<open>TypeError m\<close>: a \<^verbatim>\<open>TypeError\<close> of the JavaScript runtime, raised when a property is read
    from a value that has none.
\<close>

datatype error =
    NamespacedSuperclass string nat nat
  | UninterpretableSuperclass string nat nat
  | UninterpretableSuperInterface string nat nat
  | MissingExportedClassName string nat nat
  | CouldNotLoad bool string string
  | ParseFailure string
  | TypeError string

section \<open>Plain objects\<close>

text \<open>
  The indexes of a file and the generic types of a declaration are JavaScript objects made
  by \<^verbatim>\<open>{}\<close> and used as records. Such an object has its own keys, in insertion order, and
  a prototype, at first \<^verbatim>\<open>Object.prototype\<close>.

  \<^item> \<^verbatim>\<open>k in obj\<close> holds for an own key and for every name inherited through the prototype
    chain; the members of \<^verbatim>\<open>Object.prototype\<close> are \<open>objectPrototypeMembers\<close>.
  \<^item> \<^verbatim>\<open>obj[k] = v\<close> adds or replaces the own key \<open>k\<close>, except for \<^verbatim>\<open>__proto__\<close>: that
    assignment runs the setter inherited from \<^verbatim>\<open>Object.prototype\<close>, which makes an object
    \<open>v\<close> the prototype of \<open>obj\<close> and ignores a string \<open>v\<close>; no own key is added.
  \<^item> \<^verbatim>\<open>obj[k]\<close> is the own value, else for \<^verbatim>\<open>__proto__\<close> the prototype, else the inherited
    member.

  \<open>prototype obj = None\<close> is \<^verbatim>\<open>Object.prototype\<close>; \<open>Some v\<close> is the object \<open>v\<close> that was
  assigned, itself a plain object. A value that is inherited is not an entry of the record:
  it is a member of \<^verbatim>\<open>Object.prototype\<close> (a function, or for \<^verbatim>\<open>__proto__\<close> that prototype
  itself), or the value of a property of the assigned prototype.
\<close>

definition objectPrototypeMembers :: "string list" where
  "objectPrototypeMembers =
     [''constructor'', ''__defineGetter__'', ''__defineSetter__'', ''hasOwnProperty'',
      ''__lookupGetter__'', ''__lookupSetter__'', ''isPrototypeOf'', ''propertyIsEnumerable'',
      ''toString'', ''valueOf'', ''__proto__'', ''toLocaleString'']"

record 'v js_object =
  own :: "(string \<times> 'v) list"
  prototype :: "'v option"

datatype 'v inherited = ObjectPrototypeMember string | PropertyOf 'v string

definition emptyObject :: "'v js_object" where
  "emptyObject = \<lparr>own = [], prototype = None\<rparr>"

text \<open>\<^verbatim>\<open>obj[k] = v\<close> for an object \<open>v\<close>, and for a string \<open>v\<close>.\<close>

definition assign :: "string \<Rightarrow> 'v \<Rightarrow> 'v js_object \<Rightarrow> 'v js_object" where
  "assign k v obj =
     (if k = ''__proto__'' then obj\<lparr>prototype := Some v\<rparr>
      else obj\<lparr>own := AList.update k v (own obj)\<rparr>)"

definition assignString :: "string \<Rightarrow> string \<Rightarrow> string js_object \<Rightarrow> string js_object" where
  "assignString k v obj =
     (if k = ''__proto__'' then obj else obj\<lparr>own := AList.update k v (own obj)\<rparr>)"

text \<open>
  \<^verbatim>\<open>k in obj\<close> and \<^verbatim>\<open>obj[k]\<close> in one: \<open>None\<close> when \<^verbatim>\<open>k in obj\<close> is false, \<open>Some (Inl v)\<close>
  when \<^verbatim>\<open>obj[k]\<close> is an entry \<open>v\<close> (an own value, or the assigned prototype read back
  through \<^verbatim>\<open>__proto__\<close>), \<open>Some (Inr j)\<close> when it is inherited. \<open>keys v k\<close> says whether the
  object \<open>v\<close> has a property \<open>k\<close>.
\<close>

definition getProperty ::
  "('v \<Rightarrow> string \<Rightarrow> bool) \<Rightarrow> 'v js_object \<Rightarrow> string \<Rightarrow> ('v + 'v inherited) option" where
  "getProperty keys obj k =
     (case map_of (own obj) k of
        Some v \<Rightarrow> Some (Inl v)
      | None \<Rightarrow>
          (case prototype obj of
             Some p \<Rightarrow>
               if k = ''__proto__'' then Some (Inl p)
               else if keys p k then Some (Inr (PropertyOf p k))
               else if k \<in> set objectPrototypeMembers then Some (Inr (ObjectPrototypeMember k))
               else None
           | None \<Rightarrow>
               if k \<in> set objectPrototypeMembers then Some (Inr (ObjectPrototypeMember k))
               else None))"

definition hasProperty :: "('v \<Rightarrow> string \<Rightarrow> bool) \<Rightarrow> 'v js_object \<Rightarrow> string \<Rightarrow> bool" where
  "hasProperty keys obj k = (getProperty keys obj k \<noteq> None)"

section \<open>Class references and loaded classes\<close>

record class_reference =
  localName :: string
  fileName :: string
  packageName :: "string option"
  qualifiedPath :: "string list option"
  fileNameReferenced :: "string option"

text \<open>The object literal \<^verbatim>\<open>{ localName, fileName }\<close>, and the properties a reference has.\<close>

definition plainReference :: "string \<Rightarrow> string \<Rightarrow> class_reference" where
  "plainReference n f =
     \<lparr>localName = n, fileName = f, packageName = None, qualifiedPath = None,
      fileNameReferenced = None\<rparr>"

definition referenceKeys :: "class_reference \<Rightarrow> string \<Rightarrow> bool" where
  "referenceKeys r k =
     (k = ''localName'' \<or> k = ''fileName'' \<or>
      k = ''packageName'' \<and> packageName r \<noteq> None \<or>
      k = ''qualifiedPath'' \<and> qualifiedPath r \<noteq> None \<or>
      k = ''fileNameReferenced'' \<and> fileNameReferenced r \<noteq> None)"

record generic_type =
  constraint_type :: "type_node option"

type_synonym generic_types = "generic_type js_object"

text \<open>
  The \<^verbatim>\<open>declaration\<close> of a loaded class is the value the index gave for the name: a
  declaration node, or an inherited value.
\<close>

datatype class_reference_loaded =
    ClassLoaded (reference: class_reference)
      (class_declaration: "class_declaration + class_declaration inherited")
      (loaded_ast: ast) (loaded_abstract: "bool option") (generics: generic_types)
      (comment: "string option")
  | InterfaceLoaded (reference: class_reference)
      (interface_declaration: "interface_declaration + interface_declaration inherited")
      (loaded_ast: ast) (generics: generic_types) (comment: "string option")

type_synonym loaded_declaration =
  "(class_declaration + class_declaration inherited) +
   (interface_declaration + interface_declaration inherited)"

type_synonym load_result = "(error + class_reference_loaded) option"

record class_elements =
  exportedClasses :: "class_declaration js_object"
  exportedInterfaces :: "interface_declaration js_object"
  exportedImportedElements :: "class_reference js_object"
  exportedImportedAll :: "string list"
  exportedUnknowns :: "string js_object"
  declaredClasses :: "class_declaration js_object"
  declaredInterfaces :: "interface_declaration js_object"
  importedElements :: "class_reference js_object"

section \<open>Collaborators of the class loader\<close>

text \<open>
  The class loader calls things that are not part of it. They are parameters of the model.

  \<^item> \<open>parseTypescriptFile\<close> of the resolution context, and Node's \<^verbatim>\<open>Path.dirname\<close> and
    \<^verbatim>\<open>Path.join\<close>.
  \<^item> \<open>commentDescription\<close>. Modelled from the spec: \<^verbatim>\<open>CommentLoader\<close> is not among the
    sources. The specification attaches to a loaded declaration the text of the nearest
    preceding documentation comment of its file, so \<open>commentDescription\<close> is a function of
    the file's syntax tree and the declaration, yielding the \<^verbatim>\<open>description\<close> of the comment
    data when there is one. It may raise an error, as it can when the declaration it is given
    is an inherited value and not a syntax node.
  \<^item> \<open>nodeHas\<close>: whether a declaration node has a property of a given name. The parser
    decides which properties a node carries; the model keeps only those the loader reads.
  \<^item> \<open>inheritedAsDeclaration\<close>: the loader reading \<^verbatim>\<open>abstract\<close> and collecting the generic
    types of the value of a property of a declaration node, used as if it were a declaration:
    the two results, or the error raised on the way (a \<^verbatim>\<open>TypeError\<close> when the value is
    \<^verbatim>\<open>null\<close> or \<^verbatim>\<open>undefined\<close>).
  \<^item> \<open>loadIllTyped\<close>: \<^verbatim>\<open>loadClassDeclaration\<close> called on an inherited value in place of
    a reference, which has no \<^verbatim>\<open>localName\<close> and no \<^verbatim>\<open>fileName\<close>.
\<close>

record environment =
  parseTypescriptFile :: "string \<Rightarrow> error + ast"
  pathDirname :: "string \<Rightarrow> string"
  pathJoin :: "string \<Rightarrow> string \<Rightarrow> string"
  commentDescription :: "ast \<Rightarrow> loaded_declaration \<Rightarrow> error + string option"
  nodeHas :: "class_declaration + interface_declaration \<Rightarrow> string \<Rightarrow> bool"
  inheritedAsDeclaration ::
    "class_declaration + interface_declaration \<Rightarrow> string \<Rightarrow> error + bool option \<times> generic_types"
  loadIllTyped :: "class_reference inherited \<Rightarrow> bool \<Rightarrow> load_result"

definition classKeys :: "environment \<Rightarrow> class_declaration \<Rightarrow> string \<Rightarrow> bool" where
  "classKeys env d k = nodeHas env (Inl d) k"

definition interfaceKeys :: "environment \<Rightarrow> interface_declaration \<Rightarrow> string \<Rightarrow> bool" where
  "interfaceKeys env d k = nodeHas env (Inr d) k"

section \<open>Heritage clauses\<close>

definition getSuperClassName :: "class_declaration \<Rightarrow> string \<Rightarrow> error + string option" where
  "getSuperClassName declaration file =
     (case superClass declaration of
        None \<Rightarrow> Inr None
      | Some (Identifier n p) \<Rightarrow> Inr (Some n)
      | Some (MemberExpression (Identifier obj p1) (Identifier prop p2) p) \<Rightarrow>
          Inl (NamespacedSuperclass file (line p) (column p))
      | Some e \<Rightarrow> Inl (UninterpretableSuperclass file (line (start e)) (column (start e))))"

text \<open>
  The \<^verbatim>\<open>map\<close> over \<^verbatim>\<open>declaration.extends || []\<close>: entries are visited in order, and the
  first one that is not an identifier throws.
\<close>

fun superInterfaceNames :: "heritage list \<Rightarrow> string \<Rightarrow> error + string list" where
  "superInterfaceNames [] file = Inr []"
| "superInterfaceNames (extendsExpression # rest) file =
     (case extendsExpression of
        TSInterfaceHeritage (Identifier n p) q \<Rightarrow>
          (case superInterfaceNames rest file of
             Inl e \<Rightarrow> Inl e
           | Inr names \<Rightarrow> Inr (n # names))
      | _ \<Rightarrow>
          Inl (UninterpretableSuperInterface file
                 (line (heritage_start extendsExpression))
                 (column (heritage_start extendsExpression))))"

definition getSuperInterfaceNames :: "interface_declaration \<Rightarrow> string \<Rightarrow> error + string list" where
  "getSuperInterfaceNames declaration file =
     superInterfaceNames (case extends declaration of None \<Rightarrow> [] | Some hs \<Rightarrow> hs) file"

section \<open>Generic types\<close>

definition typeParameters ::
  "class_declaration + interface_declaration \<Rightarrow> type_parameter list option" where
  "typeParameters classDeclaration =
     (case classDeclaration of
        Inl c \<Rightarrow> class_typeParameters c
      | Inr i \<Rightarrow> interface_typeParameters i)"

text \<open>
  \<^verbatim>\<open>genericTypes[param.name.name] = { type: param.constraint }\<close>, starting from \<^verbatim>\<open>{}\<close>.
\<close>

definition collectGenericTypes :: "class_declaration + interface_declaration \<Rightarrow> generic_types" where
  "collectGenericTypes classDeclaration =
     (case typeParameters classDeclaration of
        None \<Rightarrow> emptyObject
      | Some params \<Rightarrow>
          fold (\<lambda>param genericTypes.
                  assign (param_name param) \<lparr>constraint_type = constraint param\<rparr> genericTypes)
            params emptyObject)"

section \<open>Class elements of a file\<close>

definition emptyElements :: class_elements where
  "emptyElements =
     \<lparr>exportedClasses = emptyObject, exportedInterfaces = emptyObject,
      exportedImportedElements = emptyObject, exportedImportedAll = [],
      exportedUnknowns = emptyObject, declaredClasses = emptyObject,
      declaredInterfaces = emptyObject, importedElements = emptyObject\<rparr>"

text \<open>
  \<^verbatim>\<open>source && source.type === Literal && typeof source.value === 'string'\<close>, yielding the
  string.
\<close>

definition stringSource :: "expression option \<Rightarrow> string option" where
  "stringSource source =
     (case source of
        Some (Literal (StringValue v) p) \<Rightarrow> Some v
      | _ \<Rightarrow> None)"

text \<open>\<^verbatim>\<open>Path.join(Path.dirname(fileName), statement.source.value)\<close>.\<close>

definition sourceFile :: "environment \<Rightarrow> string \<Rightarrow> string \<Rightarrow> string" where
  "sourceFile env file v = pathJoin env (pathDirname env file) v"

text \<open>
  The body of the loop over \<^verbatim>\<open>ast.body\<close>: one statement, the eight indexes updated.
  An interface declaration always has a name, so the test \<^verbatim>\<open>statement.id\<close> of a top-level
  interface always succeeds; a class declaration may lack one. The values stored in
  \<^verbatim>\<open>exportedUnknowns\<close> are strings, all others are objects.
\<close>

definition classifyStatement ::
  "environment \<Rightarrow> string \<Rightarrow> statement \<Rightarrow> class_elements \<Rightarrow> error + class_elements" where
  "classifyStatement env file statement elements =
     (case statement of
        ExportNamedDeclaration declaration source specifiers \<Rightarrow>
          (case declaration of
             Some (ExportedClass d) \<Rightarrow>
               (case class_id d of
                  None \<Rightarrow>
                    Inl (MissingExportedClassName file (line (class_start d)) (column (class_start d)))
                | Some n \<Rightarrow>
                    Inr (elements\<lparr>exportedClasses := assign n d (exportedClasses elements)\<rparr>))
           | Some (ExportedInterface d) \<Rightarrow>
               Inr (elements\<lparr>exportedInterfaces :=
                      assign (interface_id d) d (exportedInterfaces elements)\<rparr>)
           | _ \<Rightarrow>
               (case stringSource source of
                  Some v \<Rightarrow>
                    Inr (fold (\<lambda>specifier els.
                                 els\<lparr>exportedImportedElements :=
                                   assign (specifier_exported specifier)
                                     (plainReference (specifier_local specifier)
                                        (sourceFile env file v))
                                     (exportedImportedElements els)\<rparr>)
                           specifiers elements)
                | None \<Rightarrow>
                    Inr (fold (\<lambda>specifier els.
                                 els\<lparr>exportedUnknowns :=
                                   assignString (specifier_exported specifier)
                                     (specifier_local specifier) (exportedUnknowns els)\<rparr>)
                           specifiers elements)))
      | ExportAllDeclaration source \<Rightarrow>
          (case stringSource source of
             Some v \<Rightarrow>
               Inr (elements\<lparr>exportedImportedAll :=
                      exportedImportedAll elements @ [sourceFile env file v]\<rparr>)
           | None \<Rightarrow> Inr elements)
      | ClassDeclaration d \<Rightarrow>
          (case class_id d of
             Some n \<Rightarrow> Inr (elements\<lparr>declaredClasses := assign n d (declaredClasses elements)\<rparr>)
           | None \<Rightarrow> Inr elements)
      | TSInterfaceDeclaration d \<Rightarrow>
          Inr (elements\<lparr>declaredInterfaces :=
                 assign (interface_id d) d (declaredInterfaces elements)\<rparr>)
      | ImportDeclaration source specifiers \<Rightarrow>
          (case stringSource (Some source) of
             Some v \<Rightarrow>
               Inr (fold (\<lambda>specifier els.
                            case specifier of
                              ImportSpecifier l i \<Rightarrow>
                                els\<lparr>importedElements :=
                                  assign l (plainReference i (sourceFile env file v))
                                    (importedElements els)\<rparr>
                            | _ \<Rightarrow> els)
                      specifiers elements)
           | None \<Rightarrow> Inr elements)
      | OtherStatement \<Rightarrow> Inr elements)"

fun classifyStatements ::
  "environment \<Rightarrow> string \<Rightarrow> statement list \<Rightarrow> class_elements \<Rightarrow> error + class_elements" where
  "classifyStatements env file [] elements = Inr elements"
| "classifyStatements env file (statement # statements) elements =
     (case classifyStatement env file statement elements of
        Inl e \<Rightarrow> Inl e
      | Inr elements' \<Rightarrow> classifyStatements env file statements elements')"

definition getClassElements :: "environment \<Rightarrow> string \<Rightarrow> ast \<Rightarrow> error + class_elements" where
  "getClassElements env file tree = classifyStatements env file (body tree) emptyElements"

section \<open>Loading a class declaration\<close>

text \<open>
  \<^verbatim>\<open>enhanceLoadedWithComment\<close> asks the comment loader for the comment data of the
  declaration, which may throw, and sets \<^verbatim>\<open>comment\<close> when the description is a non-empty
  string.
\<close>

fun declarationOf :: "class_reference_loaded \<Rightarrow> loaded_declaration" where
  "declarationOf (ClassLoaded r d a ab g c) = Inl d"
| "declarationOf (InterfaceLoaded r d a g c) = Inr d"

fun withComment :: "string \<Rightarrow> class_reference_loaded \<Rightarrow> class_reference_loaded" where
  "withComment description (ClassLoaded r d a ab g c) = ClassLoaded r d a ab g (Some description)"
| "withComment description (InterfaceLoaded r d a g c) = InterfaceLoaded r d a g (Some description)"

definition enhanceLoadedWithComment ::
  "environment \<Rightarrow> class_reference_loaded \<Rightarrow> error + class_reference_loaded" where
  "enhanceLoadedWithComment env classLoaded =
     (case commentDescription env (loaded_ast classLoaded) (declarationOf classLoaded) of
        Inl e \<Rightarrow> Inl e
      | Inr None \<Rightarrow> Inr classLoaded
      | Inr (Some description) \<Rightarrow>
          Inr (if description \<noteq> [] then withComment description classLoaded else classLoaded))"

text \<open>
  What \<^verbatim>\<open>declaration.abstract\<close> and \<^verbatim>\<open>collectGenericTypes(declaration)\<close> give when the
  declaration is an inherited value. A member of \<^verbatim>\<open>Object.prototype\<close> has neither an
  \<^verbatim>\<open>abstract\<close> nor a \<^verbatim>\<open>typeParameters\<close> property.
\<close>

definition inheritedFields ::
  "environment \<Rightarrow> ('v \<Rightarrow> class_declaration + interface_declaration) \<Rightarrow> 'v inherited \<Rightarrow>
     error + bool option \<times> generic_types" where
  "inheritedFields env node j =
     (case j of
        ObjectPrototypeMember k \<Rightarrow> Inr (None, emptyObject)
      | PropertyOf p k \<Rightarrow> inheritedAsDeclaration env (node p) k)"

text \<open>
  The two object literals that \<^verbatim>\<open>loadClassDeclaration\<close> builds and passes through
  \<^verbatim>\<open>enhanceLoadedWithComment\<close>: \<^verbatim>\<open>type: 'class'\<close> with the reference spread into it, the
  declaration, the syntax tree, \<^verbatim>\<open>declaration.abstract\<close> and the generic types; and
  \<^verbatim>\<open>type: 'interface'\<close>, which has no abstract flag. The declaration is what the index
  gave for the name.
\<close>

definition loadedClass ::
  "environment \<Rightarrow> class_reference \<Rightarrow> class_declaration + class_declaration inherited \<Rightarrow> ast \<Rightarrow>
     error + class_reference_loaded" where
  "loadedClass env classReference found tree =
     (case found of
        Inl d \<Rightarrow>
          enhanceLoadedWithComment env
            (ClassLoaded classReference (Inl d) tree (abstract d) (collectGenericTypes (Inl d)) None)
      | Inr j \<Rightarrow>
          (case inheritedFields env Inl j of
             Inl e \<Rightarrow> Inl e
           | Inr (ab, g) \<Rightarrow>
               enhanceLoadedWithComment env (ClassLoaded classReference (Inr j) tree ab g None)))"

definition loadedInterface ::
  "environment \<Rightarrow> class_reference \<Rightarrow> interface_declaration + interface_declaration inherited \<Rightarrow>
     ast \<Rightarrow> error + class_reference_loaded" where
  "loadedInterface env classReference found tree =
     (case found of
        Inl d \<Rightarrow>
          enhanceLoadedWithComment env
            (InterfaceLoaded classReference (Inl d) tree (collectGenericTypes (Inr d)) None)
      | Inr j \<Rightarrow>
          (case inheritedFields env Inr j of
             Inl e \<Rightarrow> Inl e
           | Inr (ab, g) \<Rightarrow>
               enhanceLoadedWithComment env (InterfaceLoaded classReference (Inr j) tree g None)))"

text \<open>
  The loop over \<^verbatim>\<open>exportedImportedAll\<close>. \<open>load\<close> is the recursive call; \<open>None\<close> is a call
  that does not return, which no \<^verbatim>\<open>catch\<close> can see. An error of a sub-file is caught and
  dropped; after the last sub-file the caller's own error is thrown.
\<close>

fun loadFromExportAlls ::
  "(class_reference \<Rightarrow> load_result) \<Rightarrow> string \<Rightarrow> string list \<Rightarrow> error \<Rightarrow> load_result" where
  "loadFromExportAlls load n [] exhausted = Some (Inl exhausted)"
| "loadFromExportAlls load n (subFile # subFiles) exhausted =
     (case load (plainReference n subFile) of
        None \<Rightarrow> None
      | Some (Inr loaded) \<Rightarrow> Some (Inr loaded)
      | Some (Inl e) \<Rightarrow> loadFromExportAlls load n subFiles exhausted)"

text \<open>
  The recursive call on what an index of bindings gave for the name: a binding, or an
  inherited value.
\<close>

definition follow ::
  "(class_reference \<Rightarrow> load_result) \<Rightarrow> environment \<Rightarrow> bool \<Rightarrow>
     class_reference + class_reference inherited \<Rightarrow> load_result" where
  "follow load env considerInterfaces found =
     (case found of
        Inl target \<Rightarrow> load target
      | Inr j \<Rightarrow> loadIllTyped env j considerInterfaces)"

text \<open>
  The body of \<^verbatim>\<open>loadClassDeclaration\<close> after the file's elements are known; \<open>load\<close> is
  the recursive call \<^verbatim>\<open>this.loadClassDeclaration(_, considerInterfaces)\<close>. Each test
  \<^verbatim>\<open>classReference.localName in index\<close> and the read \<^verbatim>\<open>index[classReference.localName]\<close>
  that follows it are one \<open>getProperty\<close>.
\<close>

definition loadFromElements ::
  "(class_reference \<Rightarrow> load_result) \<Rightarrow> environment \<Rightarrow> class_reference \<Rightarrow> bool \<Rightarrow> ast \<Rightarrow>
     class_elements \<Rightarrow> load_result" where
  "loadFromElements load env classReference considerInterfaces tree elements =
     (case getProperty (classKeys env) (exportedClasses elements) (localName classReference) of
        Some found \<Rightarrow> Some (loadedClass env classReference found tree)
      | None \<Rightarrow>
     (case getProperty (classKeys env) (declaredClasses elements) (localName classReference) of
        Some found \<Rightarrow> Some (loadedClass env classReference found tree)
      | None \<Rightarrow>
     (case (if considerInterfaces
            then getProperty (interfaceKeys env) (exportedInterfaces elements)
                   (localName classReference)
            else None) of
        Some found \<Rightarrow> Some (loadedInterface env classReference found tree)
      | None \<Rightarrow>
     (case (if considerInterfaces
            then getProperty (interfaceKeys env) (declaredInterfaces elements)
                   (localName classReference)
            else None) of
        Some found \<Rightarrow> Some (loadedInterface env classReference found tree)
      | None \<Rightarrow>
     (case getProperty referenceKeys (importedElements elements) (localName classReference) of
        Some found \<Rightarrow> follow load env considerInterfaces found
      | None \<Rightarrow>
     (case getProperty referenceKeys (exportedImportedElements elements)
             (localName classReference) of
        Some found \<Rightarrow> follow load env considerInterfaces found
      | None \<Rightarrow>
          loadFromExportAlls load (localName classReference) (exportedImportedAll elements)
            (CouldNotLoad considerInterfaces (localName classReference)
               (fileName classReference))))))))"

lemma loadFromExportAlls_ord:
  assumes "\<And>r. option_ord (f r) (g r)"
  shows "option_ord (loadFromExportAlls f n subFiles e) (loadFromExportAlls g n subFiles e)"
proof (induction subFiles)
  case Nil
  show ?case by (simp add: flat_ord_def)
next
  case (Cons subFile subFiles)
  show ?case
  proof (cases "f (plainReference n subFile)")
    case None
    then show ?thesis by (simp add: flat_ord_def)
  next
    case (Some r)
    with assms [of "plainReference n subFile"] have "g (plainReference n subFile) = Some r"
      by (simp add: flat_ord_def)
    with Some Cons.IH show ?thesis by (simp add: flat_ord_def split: sum.split)
  qed
qed

lemma follow_ord:
  assumes "\<And>r. option_ord (f r) (g r)"
  shows "option_ord (follow f env ci found) (follow g env ci found)"
  using assms by (cases found) (simp_all add: follow_def flat_ord_def)

lemma loadFromElements_ord:
  assumes "\<And>r. option_ord (f r) (g r)"
  shows "option_ord (loadFromElements f env classReference considerInterfaces tree elements)
           (loadFromElements g env classReference considerInterfaces tree elements)"
  unfolding loadFromElements_def
  using follow_ord [of f g, OF assms] loadFromExportAlls_ord [of f g, OF assms]
  by (simp add: flat_ord_def split: option.split)

lemma loadFromElements_mono [partial_function_mono]:
  assumes "\<And>r. mono_option (\<lambda>f. F f r)"
  shows "mono_option (\<lambda>f. loadFromElements (F f) env classReference considerInterfaces tree elements)"
proof (rule monotoneI)
  fix f g :: "'a \<Rightarrow> 'b option"
  assume fg: "fun_ord option_ord f g"
  have "option_ord (F f r) (F g r)" for r
    by (rule monotoneD [of _ _ "\<lambda>f. F f r", OF assms fg])
  then show "option_ord (loadFromElements (F f) env classReference considerInterfaces tree elements)
          (loadFromElements (F g) env classReference considerInterfaces tree elements)"
    by (rule loadFromElements_ord)
qed

text \<open>
  \<^verbatim>\<open>loadClassDeclaration\<close> parses the file of the reference, extracts its elements (either
  may throw) and continues with \<open>loadFromElements\<close>. The recursion need not end: a call that
  does not return has the value \<open>None\<close>.
\<close>

partial_function (option) loadClassDeclaration ::
  "environment \<Rightarrow> class_reference \<Rightarrow> bool \<Rightarrow> (error + class_reference_loaded) option" where
  "loadClassDeclaration env classReference considerInterfaces =
     (case parseTypescriptFile env (fileName classReference) of
        Inl e \<Rightarrow> Some (Inl e)
      | Inr tree \<Rightarrow>
          (case getClassElements env (fileName classReference) tree of
             Inl e \<Rightarrow> Some (Inl e)
           | Inr elements \<Rightarrow>
               loadFromElements (\<lambda>r. loadClassDeclaration env r considerInterfaces)
                 env classReference considerInterfaces tree elements))"

declare loadClassDeclaration.simps [code]

section \<open>Notions used in the statements\<close>

definition heritages :: "interface_declaration \<Rightarrow> heritage list" where
  "heritages i = (case extends i of None \<Rightarrow> [] | Some hs \<Rightarrow> hs)"

fun bareIdentifier :: "heritage \<Rightarrow> string option" where
  "bareIdentifier (TSInterfaceHeritage (Identifier n p) q) = Some n"
| "bareIdentifier h = None"

fun isIdentifier :: "expression \<Rightarrow> bool" where
  "isIdentifier (Identifier n p) = True"
| "isIdentifier e = False"

fun isNamespaced :: "expression \<Rightarrow> bool" where
  "isNamespaced (MemberExpression (Identifier obj p1) (Identifier prop p2) p) = True"
| "isNamespaced e = False"

text \<open>
  The tests of \<^verbatim>\<open>loadClassDeclaration\<close> on the class and interface indexes: some index
  it consults answers \<^verbatim>\<open>n in index\<close> with true.
\<close>

definition declaredLocally :: "environment \<Rightarrow> class_elements \<Rightarrow> bool \<Rightarrow> string \<Rightarrow> bool" where
  "declaredLocally env elements considerInterfaces n =
     (hasProperty (classKeys env) (exportedClasses elements) n \<or>
      hasProperty (classKeys env) (declaredClasses elements) n \<or>
      considerInterfaces \<and>
        (hasProperty (interfaceKeys env) (exportedInterfaces elements) n \<or>
         hasProperty (interfaceKeys env) (declaredInterfaces elements) n))"






definition failed :: "load_result \<Rightarrow> bool" where
  "failed result = (case result of Some (Inl e) \<Rightarrow> True | _ \<Rightarrow> False)"



text \<open>
  One indirection as the loader takes it: in the file of \<open>r\<close> no class or interface index
  answers for the name; \<open>r'\<close> is the reference \<^verbatim>\<open>importedElements\<close> holds for it, else the
  reference \<^verbatim>\<open>exportedImportedElements\<close> holds for it, else the name in a wildcard target
  before which every target fails.
\<close>

definition indirection :: "environment \<Rightarrow> bool \<Rightarrow> class_reference \<Rightarrow> class_reference \<Rightarrow> bool" where
  "indirection env ci r r' =
     (case parseTypescriptFile env (fileName r) of
        Inl e \<Rightarrow> False
      | Inr tree \<Rightarrow>
          (case getClassElements env (fileName r) tree of
             Inl e \<Rightarrow> False
           | Inr els \<Rightarrow>
               \<not> declaredLocally env els ci (localName r) \<and>
               (case getProperty referenceKeys (importedElements els) (localName r) of
                  Some found \<Rightarrow> found = Inl r'
                | None \<Rightarrow>
                    (case getProperty referenceKeys (exportedImportedElements els) (localName r) of
                       Some found \<Rightarrow> found = Inl r'
                     | None \<Rightarrow>
                         r' = plainReference (localName r) (fileName r') \<and>
                         fileName r' \<in> set (exportedImportedAll els) \<and>
                         (\<forall>s \<in> set (takeWhile (\<lambda>s. s \<noteq> fileName r') (exportedImportedAll els)).
                            failed (loadClassDeclaration env (plainReference (localName r) s) ci))))))"

fun indirections :: "environment \<Rightarrow> bool \<Rightarrow> class_reference \<Rightarrow> class_reference list \<Rightarrow> bool" where
  "indirections env ci r [] = True"
| "indirections env ci r (r' # rs) = (indirection env ci r r' \<and> indirections env ci r' rs)"

text \<open>
  One indirection as the specification words it: \<open>r'\<close> is what \<^verbatim>\<open>importedElements\<close> or
  \<^verbatim>\<open>exportedImportedElements\<close> of the file of \<open>r\<close> binds the name to, or the name in one of
  the file's wildcard targets.
\<close>

definition statedIndirection :: "environment \<Rightarrow> class_reference \<Rightarrow> class_reference \<Rightarrow> bool" where
  "statedIndirection env r r' =
     (case parseTypescriptFile env (fileName r) of
        Inl e \<Rightarrow> False
      | Inr tree \<Rightarrow>
          (case getClassElements env (fileName r) tree of
             Inl e \<Rightarrow> False
           | Inr els \<Rightarrow>
               map_of (own (importedElements els)) (localName r) = Some r' \<or>
               map_of (own (exportedImportedElements els)) (localName r) = Some r' \<or>
               r' = plainReference (localName r) (fileName r') \<and>
               fileName r' \<in> set (exportedImportedAll els)))"

fun structurallyEquivalent :: "class_reference_loaded \<Rightarrow> class_reference_loaded \<Rightarrow> bool" where
  "structurallyEquivalent (ClassLoaded r d a ab g c) (ClassLoaded r' d' a' ab' g' c') =
     (d = d' \<and> a = a' \<and> ab = ab' \<and> g = g' \<and> c = c')"
| "structurallyEquivalent (InterfaceLoaded r d a g c) (InterfaceLoaded r' d' a' g' c') =
     (d = d' \<and> a = a' \<and> g = g' \<and> c = c')"
| "structurallyEquivalent l l' = False"

section \<open>Example declarations and packages\<close>

definition at :: "nat \<Rightarrow> nat \<Rightarrow> position" where
  "at l c = \<lparr>line = l, column = c\<rparr>"

definition classExtending :: "expression option \<Rightarrow> class_declaration" where
  "classExtending e =
     \<lparr>class_id = Some ''A'', superClass = e, class_typeParameters = None, abstract = None,
      class_start = at 1 0\<rparr>"

definition interfaceExtending :: "heritage list option \<Rightarrow> interface_declaration" where
  "interfaceExtending hs =
     \<lparr>interface_id = ''I'', extends = hs, interface_typeParameters = None,
      interface_start = at 1 0\<rparr>"


definition parameter :: "string \<Rightarrow> type_node option \<Rightarrow> type_parameter" where
  "parameter n c = \<lparr>param_name = n, constraint = c\<rparr>"

definition objectOf :: "(string \<times> 'v) list \<Rightarrow> 'v js_object" where
  "objectOf entries = \<lparr>own = entries, prototype = None\<rparr>"

text \<open>
  Files of one flat directory, named without extension: \<^verbatim>\<open>Path.join(Path.dirname('a'), './b')\<close>
  is \<^verbatim>\<open>'b'\<close>. A file that is not listed cannot be parsed. No declaration has a comment, and
  the comment loader raises a \<^verbatim>\<open>TypeError\<close> when the declaration it is given is an inherited
  value, which has no location. A declaration node has the properties \<open>nodeProperties\<close>;
  the value of such a property has neither an \<^verbatim>\<open>abstract\<close> flag nor type parameters. A call
  of the loader on an inherited value in place of a reference raises a \<^verbatim>\<open>TypeError\<close>.
\<close>

definition flatJoin :: "string \<Rightarrow> string \<Rightarrow> string" where
  "flatJoin dir v = (if take 2 v = ''./'' then drop 2 v else v)"

definition fileOf :: "statement list \<Rightarrow> ast" where
  "fileOf statements = \<lparr>body = statements, comments = []\<rparr>"

definition nodeProperties :: "string list" where
  "nodeProperties = [''type'', ''id'', ''body'', ''superClass'', ''range'', ''loc'']"

definition notANode :: error where
  "notANode = TypeError ''Cannot read properties of undefined''"

definition package :: "(string \<times> statement list) list \<Rightarrow> environment" where
  "package files =
     \<lparr>parseTypescriptFile =
        (\<lambda>f. case map_of files f of
               None \<Rightarrow> Inl (ParseFailure f)
             | Some statements \<Rightarrow> Inr (fileOf statements)),
      pathDirname = (\<lambda>f. ''.''),
      pathJoin = flatJoin,
      commentDescription =
        (\<lambda>tree d. case d of
                     Inl (Inl c) \<Rightarrow> Inr None
                   | Inr (Inl i) \<Rightarrow> Inr None
                   | _ \<Rightarrow> Inl notANode),
      nodeHas = (\<lambda>d k. k \<in> set nodeProperties),
      inheritedAsDeclaration = (\<lambda>d k. Inr (None, emptyObject)),
      loadIllTyped = (\<lambda>j ci. Some (Inl notANode))\<rparr>"

definition classNamed :: "string \<Rightarrow> class_declaration" where
  "classNamed n =
     \<lparr>class_id = Some n, superClass = None, class_typeParameters = None, abstract = None,
      class_start = at 1 7\<rparr>"

definition interfaceNamed :: "string \<Rightarrow> interface_declaration" where
  "interfaceNamed n =
     \<lparr>interface_id = n, extends = None, interface_typeParameters = None,
      interface_start = at 1 7\<rparr>"

definition moduleSource :: "string \<Rightarrow> expression" where
  "moduleSource v = Literal (StringValue v) (at 1 0)"

definition exportClass :: "string \<Rightarrow> statement" where
  "exportClass n = ExportNamedDeclaration (Some (ExportedClass (classNamed n))) None []"

definition exportInterface :: "string \<Rightarrow> statement" where
  "exportInterface n = ExportNamedDeclaration (Some (ExportedInterface (interfaceNamed n))) None []"

definition exportAll :: "string \<Rightarrow> statement" where
  "exportAll v = ExportAllDeclaration (Some (moduleSource v))"

text \<open>The loaded class and interface of a named declaration without comment.\<close>

definition classOf :: "class_reference \<Rightarrow> string \<Rightarrow> statement list \<Rightarrow> class_reference_loaded" where
  "classOf r n statements =
     ClassLoaded r (Inl (classNamed n)) (fileOf statements) None emptyObject None"












text \<open>
  \<^verbatim>\<open>a\<close>: \<^verbatim>\<open>export * from './m'\<close>, \<^verbatim>\<open>export * from './missing'\<close>, \<^verbatim>\<open>export * from './c'\<close>.
  \<^verbatim>\<open>m\<close>: an exported class declaration without a name. \<^verbatim>\<open>c\<close>: \<^verbatim>\<open>export class X {}\<close>.
  There is no file \<^verbatim>\<open>missing\<close>.
\<close>

definition namelessExport :: statement where
  "namelessExport =
     ExportNamedDeclaration (Some (ExportedClass ((classNamed ''X'')\<lparr>class_id := None\<rparr>))) None []"

definition malformed :: environment where
  "malformed = package
     [(''a'', [exportAll ''./m'', exportAll ''./missing'', exportAll ''./c'']),
      (''m'', [namelessExport]),
      (''c'', [exportClass ''X''])]"









text \<open>
  \<^verbatim>\<open>a\<close>: \<^verbatim>\<open>import { B as LB } from './b'\<close>. \<^verbatim>\<open>b\<close>: \<^verbatim>\<open>export { C as B } from './c'\<close>.
  \<^verbatim>\<open>c\<close>: \<^verbatim>\<open>export * from './e'\<close>, \<^verbatim>\<open>export * from './d'\<close>. \<^verbatim>\<open>e\<close>: \<^verbatim>\<open>export class Other {}\<close>.
  \<^verbatim>\<open>d\<close>: \<^verbatim>\<open>export abstract class C<T extends Foo> {}\<close>, under a documentation comment.
\<close>

definition chainClass :: class_declaration where
  "chainClass =
     \<lparr>class_id = Some ''C'', superClass = None,
      class_typeParameters = Some [parameter ''T'' (Some (TypeNode ''Foo''))],
      abstract = Some True, class_start = at 4 7\<rparr>"

definition chainFiles :: "(string \<times> statement list) list" where
  "chainFiles =
     [(''a'', [ImportDeclaration (moduleSource ''./b'') [ImportSpecifier ''LB'' ''B'']]),
      (''b'', [ExportNamedDeclaration None (Some (moduleSource ''./c''))
                 [\<lparr>specifier_local = ''C'', specifier_exported = ''B''\<rparr>]]),
      (''c'', [exportAll ''./e'', exportAll ''./d'']),
      (''e'', [exportClass ''Other'']),
      (''d'', [ExportNamedDeclaration (Some (ExportedClass chainClass)) None []])]"

definition chain :: environment where
  "chain =
     (package chainFiles)\<lparr>commentDescription := (\<lambda>tree d. Inr (Some ''A documented class''))\<rparr>"

definition chainLoaded :: "class_reference \<Rightarrow> class_reference_loaded" where
  "chainLoaded r =
     ClassLoaded r (Inl chainClass)
       (fileOf [ExportNamedDeclaration (Some (ExportedClass chainClass)) None []])
       (Some True) (objectOf [(''T'', \<lparr>constraint_type = Some (TypeNode ''Foo'')\<rparr>)])
       (Some ''A documented class'')"

text \<open>
  \<^verbatim>\<open>index\<close>: \<^verbatim>\<open>export * from './b'\<close>, \<^verbatim>\<open>export * from './c'\<close>. \<^verbatim>\<open>b\<close>: \<^verbatim>\<open>class X {}\<close>, not
  exported. \<^verbatim>\<open>c\<close>: \<^verbatim>\<open>export abstract class X<T extends Foo> {}\<close>.
\<close>

definition shadowingClass :: class_declaration where
  "shadowingClass =
     \<lparr>class_id = Some ''X'', superClass = None,
      class_typeParameters = Some [parameter ''T'' (Some (TypeNode ''Foo''))],
      abstract = Some True, class_start = at 1 16\<rparr>"

definition shadowingFiles :: "(string \<times> statement list) list" where
  "shadowingFiles =
     [(''index'', [exportAll ''./b'', exportAll ''./c'']),
      (''b'', [ClassDeclaration (classNamed ''X'')]),
      (''c'', [ExportNamedDeclaration (Some (ExportedClass shadowingClass)) None []])]"

definition shadowing :: environment where
  "shadowing = package shadowingFiles"

definition shadowingLoaded :: class_reference_loaded where
  "shadowingLoaded =
     ClassLoaded (plainReference ''X'' ''c'') (Inl shadowingClass)
       (fileOf [ExportNamedDeclaration (Some (ExportedClass shadowingClass)) None []])
       (Some True) (objectOf [(''T'', \<lparr>constraint_type = Some (TypeNode ''Foo'')\<rparr>)]) None"

section \<open>Heritage clauses: identifiers or errors\<close>

lemma getSuperClassName_other:
  "superClass d = Some e \<Longrightarrow> \<not> isIdentifier e \<Longrightarrow>
   getSuperClassName d f =
     Inl ((if isNamespaced e then NamespacedSuperclass else UninterpretableSuperclass)
            f (line (start e)) (column (start e)))"
  unfolding getSuperClassName_def
  by (cases e rule: isNamespaced.cases) (simp_all split: expression.splits)

lemma superInterfaceNames_all:
  "\<forall>h \<in> set hs. bareIdentifier h \<noteq> None \<Longrightarrow>
   superInterfaceNames hs f = Inr (List.map_filter bareIdentifier hs)"
proof (induction hs)
  case Nil
  show ?case by (simp add: map_filter_simps)
next
  case (Cons h hs)
  then show ?case by (cases h rule: bareIdentifier.cases) (simp_all add: map_filter_simps)
qed

lemma superInterfaceNames_first:
  "\<forall>h \<in> set pre. bareIdentifier h \<noteq> None \<Longrightarrow> bareIdentifier h = None \<Longrightarrow>
   superInterfaceNames (pre @ h # post) f =
     Inl (UninterpretableSuperInterface f (line (heritage_start h)) (column (heritage_start h)))"
proof (induction pre)
  case Nil
  then show ?case by (cases h rule: bareIdentifier.cases) simp_all
next
  case (Cons x pre)
  then show ?case by (cases x rule: bareIdentifier.cases) simp_all
qed

text \<open>
  C4. \<^verbatim>\<open>getSuperClassName\<close> yields no name when the class has no superclass and the
  identifier's name when the superclass is a bare identifier; for every other expression it
  fails with an error that holds the file name and the line and column of the expression
  (the namespaced message for \<^verbatim>\<open>ns.B\<close>, the general one otherwise).
  \<^verbatim>\<open>getSuperInterfaceNames\<close> yields the names when every entry of the \<^verbatim>\<open>extends\<close> list is
  a bare identifier, and otherwise fails with the file name, line and column of the first
  entry that is not: no entry is skipped.
\<close>

theorem heritage_identifier_or_error:
  "(superClass d = None \<longrightarrow> getSuperClassName d f = Inr None) \<and>
   (superClass d = Some (Identifier n p) \<longrightarrow> getSuperClassName d f = Inr (Some n)) \<and>
   (superClass d = Some e \<and> \<not> isIdentifier e \<longrightarrow>
      getSuperClassName d f =
        Inl ((if isNamespaced e then NamespacedSuperclass else UninterpretableSuperclass)
               f (line (start e)) (column (start e)))) \<and>
   ((\<forall>h \<in> set (heritages i). bareIdentifier h \<noteq> None) \<longrightarrow>
      getSuperInterfaceNames i f = Inr (List.map_filter bareIdentifier (heritages i))) \<and>
   (heritages i = pre @ h # post \<and> (\<forall>x \<in> set pre. bareIdentifier x \<noteq> None) \<and>
    bareIdentifier h = None \<longrightarrow>
      getSuperInterfaceNames i f =
        Inl (UninterpretableSuperInterface f (line (heritage_start h))
               (column (heritage_start h))))"
proof (intro conjI impI)
  show "getSuperClassName d f = Inr None" if "superClass d = None"
    using that by (simp add: getSuperClassName_def)
  show "getSuperClassName d f = Inr (Some n)" if "superClass d = Some (Identifier n p)"
    using that by (simp add: getSuperClassName_def)
  show "getSuperClassName d f =
      Inl ((if isNamespaced e then NamespacedSuperclass else UninterpretableSuperclass)
             f (line (start e)) (column (start e)))"
    if "superClass d = Some e \<and> \<not> isIdentifier e"
    using that getSuperClassName_other by blast
  show "getSuperInterfaceNames i f = Inr (List.map_filter bareIdentifier (heritages i))"
    if "\<forall>h \<in> set (heritages i). bareIdentifier h \<noteq> None"
    using superInterfaceNames_all [OF that]
    by (simp add: getSuperInterfaceNames_def heritages_def)
  show "getSuperInterfaceNames i f =
      Inl (UninterpretableSuperInterface f (line (heritage_start h)) (column (heritage_start h)))"
    if "heritages i = pre @ h # post \<and> (\<forall>x \<in> set pre. bareIdentifier x \<noteq> None) \<and>
        bareIdentifier h = None"
  proof -
    from that have "superInterfaceNames (heritages i) f =
        Inl (UninterpretableSuperInterface f (line (heritage_start h)) (column (heritage_start h)))"
      using superInterfaceNames_first [of pre h post f] by simp
    then show ?thesis by (simp add: getSuperInterfaceNames_def heritages_def)
  qed
qed

theorem heritage_identifier_or_error_witness:
  "getSuperClassName (classExtending None) ''a.ts'' = Inr None \<and>
   getSuperClassName (classExtending (Some (Identifier ''B'' (at 1 16)))) ''a.ts''
     = Inr (Some ''B'') \<and>
   getSuperClassName
     (classExtending
        (Some (MemberExpression (Identifier ''ns'' (at 1 16)) (Identifier ''B'' (at 1 19))
                 (at 1 16))))
     ''a.ts''
     = Inl (NamespacedSuperclass ''a.ts'' 1 16) \<and>
   getSuperClassName (classExtending (Some (OtherExpression (at 2 4)))) ''a.ts''
     = Inl (UninterpretableSuperclass ''a.ts'' 2 4) \<and>
   getSuperInterfaceNames
     (interfaceExtending
        (Some [TSInterfaceHeritage (Identifier ''B'' (at 1 20)) (at 1 20),
               TSInterfaceHeritage (Identifier ''C'' (at 1 23)) (at 1 23)]))
     ''a.ts''
     = Inr [''B'', ''C''] \<and>
   getSuperInterfaceNames
     (interfaceExtending
        (Some [TSInterfaceHeritage (Identifier ''B'' (at 1 20)) (at 1 20),
               TSInterfaceHeritage
                 (MemberExpression (Identifier ''ns'' (at 1 23)) (Identifier ''C'' (at 1 26))
                    (at 1 23))
                 (at 1 23),
               TSInterfaceHeritage (Identifier ''D'' (at 1 29)) (at 1 29)]))
     ''a.ts''
     = Inl (UninterpretableSuperInterface ''a.ts'' 1 23)"
proof (intro conjI)
  show "getSuperClassName (classExtending None) ''a.ts'' = Inr None"
    using heritage_identifier_or_error [of "classExtending None" "''a.ts''"]
    by (simp add: classExtending_def)
  show "getSuperClassName (classExtending (Some (Identifier ''B'' (at 1 16)))) ''a.ts''
      = Inr (Some ''B'')"
    using heritage_identifier_or_error
      [of "classExtending (Some (Identifier ''B'' (at 1 16)))" "''a.ts''" "''B''" "at 1 16"]
    by (simp add: classExtending_def)
  show "getSuperClassName
      (classExtending
         (Some (MemberExpression (Identifier ''ns'' (at 1 16)) (Identifier ''B'' (at 1 19))
                  (at 1 16))))
      ''a.ts''
      = Inl (NamespacedSuperclass ''a.ts'' 1 16)"
    using heritage_identifier_or_error
      [of "classExtending
             (Some (MemberExpression (Identifier ''ns'' (at 1 16)) (Identifier ''B'' (at 1 19))
                      (at 1 16)))"
          "''a.ts''" _ _
          "MemberExpression (Identifier ''ns'' (at 1 16)) (Identifier ''B'' (at 1 19)) (at 1 16)"]
    by (simp add: classExtending_def at_def)
  show "getSuperClassName (classExtending (Some (OtherExpression (at 2 4)))) ''a.ts''
      = Inl (UninterpretableSuperclass ''a.ts'' 2 4)"
    using heritage_identifier_or_error
      [of "classExtending (Some (OtherExpression (at 2 4)))" "''a.ts''" _ _
          "OtherExpression (at 2 4)"]
    by (simp add: classExtending_def at_def)
  show "getSuperInterfaceNames
      (interfaceExtending
         (Some [TSInterfaceHeritage (Identifier ''B'' (at 1 20)) (at 1 20),
                TSInterfaceHeritage (Identifier ''C'' (at 1 23)) (at 1 23)]))
      ''a.ts''
      = Inr [''B'', ''C'']"
    using heritage_identifier_or_error
      [of _ _ _ _ _
          "interfaceExtending
             (Some [TSInterfaceHeritage (Identifier ''B'' (at 1 20)) (at 1 20),
                    TSInterfaceHeritage (Identifier ''C'' (at 1 23)) (at 1 23)])"]
    by (simp add: interfaceExtending_def heritages_def map_filter_simps)
  show "getSuperInterfaceNames
      (interfaceExtending
         (Some [TSInterfaceHeritage (Identifier ''B'' (at 1 20)) (at 1 20),
                TSInterfaceHeritage
                  (MemberExpression (Identifier ''ns'' (at 1 23)) (Identifier ''C'' (at 1 26))
                     (at 1 23))
                  (at 1 23),
                TSInterfaceHeritage (Identifier ''D'' (at 1 29)) (at 1 29)]))
      ''a.ts''
      = Inl (UninterpretableSuperInterface ''a.ts'' 1 23)"
    using heritage_identifier_or_error
      [of _ "''a.ts''" _ _ _
          "interfaceExtending
             (Some [TSInterfaceHeritage (Identifier ''B'' (at 1 20)) (at 1 20),
                    TSInterfaceHeritage
                      (MemberExpression (Identifier ''ns'' (at 1 23))
                         (Identifier ''C'' (at 1 26)) (at 1 23))
                      (at 1 23),
                    TSInterfaceHeritage (Identifier ''D'' (at 1 29)) (at 1 29)])"
          "[TSInterfaceHeritage (Identifier ''B'' (at 1 20)) (at 1 20)]"
          "TSInterfaceHeritage
             (MemberExpression (Identifier ''ns'' (at 1 23)) (Identifier ''C'' (at 1 26))
                (at 1 23))
             (at 1 23)"
          "[TSInterfaceHeritage (Identifier ''D'' (at 1 29)) (at 1 29)]"]
    by (simp add: interfaceExtending_def heritages_def at_def)
qed

section \<open>Generic types: one entry per parameter name\<close>











section \<open>Resolution order\<close>

lemma plainReference_names [simp]:
  "localName (plainReference n file) = n"
  "fileName (plainReference n file) = file"
  by (simp_all add: plainReference_def)

lemma loadClassDeclaration_unfold:
  "parseTypescriptFile env (fileName r) = Inr tree \<Longrightarrow>
   getClassElements env (fileName r) tree = Inr els \<Longrightarrow>
   loadClassDeclaration env r ci =
     loadFromElements (\<lambda>t. loadClassDeclaration env t ci) env r ci tree els"
  by (subst loadClassDeclaration.simps) simp

lemma load_in_file:
  assumes "parseTypescriptFile env file = Inr tree"
    and "getClassElements env file tree = Inr els"
  shows "loadClassDeclaration env (plainReference n file) ci =
     loadFromElements (\<lambda>t. loadClassDeclaration env t ci) env (plainReference n file) ci tree els"
  by (rule loadClassDeclaration_unfold) (simp_all add: assms)

lemma loadFromExportAlls_skip:
  "\<forall>s \<in> set pre. \<exists>e. load (plainReference n s) = Some (Inl e) \<Longrightarrow>
   loadFromExportAlls load n (pre @ rest) ex = loadFromExportAlls load n rest ex"
  by (induction pre) auto

lemma loadFromExportAlls_result:
  "loadFromExportAlls load n subFiles ex = Some y \<Longrightarrow>
   y = Inl ex \<or> (\<exists>s \<in> set subFiles. \<exists>l. y = Inr l \<and> load (plainReference n s) = Some (Inr l))"
  by (induction subFiles) (auto split: option.splits sum.splits)


lemma loadFromExportAlls_error:
  "loadFromExportAlls load n subFiles ex = Some (Inl e) \<Longrightarrow> e = ex"
  by (drule loadFromExportAlls_result) auto




lemma loadFromElements_wildcards:
  assumes "\<not> declaredLocally env els ci (localName r)"
    and "\<not> hasProperty referenceKeys (importedElements els) (localName r)"
    and "\<not> hasProperty referenceKeys (exportedImportedElements els) (localName r)"
  shows "loadFromElements load env r ci tree els =
     loadFromExportAlls load (localName r) (exportedImportedAll els)
       (CouldNotLoad ci (localName r) (fileName r))"
  using assms unfolding loadFromElements_def declaredLocally_def hasProperty_def by auto


lemmas fixture_defs =
  flatJoin_def fileOf_def package_def classNamed_def interfaceNamed_def moduleSource_def
  exportClass_def exportInterface_def exportAll_def at_def

lemmas extractor_defs =
  getClassElements_def classifyStatement_def stringSource_def sourceFile_def emptyElements_def
  plainReference_def assign_def assignString_def emptyObject_def objectOf_def

lemmas property_defs =
  getProperty_def hasProperty_def objectPrototypeMembers_def objectOf_def emptyObject_def
  emptyElements_def declaredLocally_def

lemma package_loadedClass:
  "loadedClass (package files) r (Inl (classNamed n)) (fileOf statements) = Inr (classOf r n statements)"
  by (simp add: package_def classNamed_def classOf_def loadedClass_def
      enhanceLoadedWithComment_def collectGenericTypes_def typeParameters_def)













section \<open>What the extractor records\<close>











section \<open>Wildcard re-exports\<close>











lemma malformed_parse:
  "parseTypescriptFile malformed ''a'' =
     Inr (fileOf [exportAll ''./m'', exportAll ''./missing'', exportAll ''./c''])"
  "parseTypescriptFile malformed ''m'' = Inr (fileOf [namelessExport])"
  "parseTypescriptFile malformed ''c'' = Inr (fileOf [exportClass ''X''])"
  "parseTypescriptFile malformed ''missing'' = Inl (ParseFailure ''missing'')"
  by (simp_all add: malformed_def package_def)

lemma malformed_elements:
  "getClassElements malformed ''a''
     (fileOf [exportAll ''./m'', exportAll ''./missing'', exportAll ''./c'']) =
     Inr (emptyElements\<lparr>exportedImportedAll := [''m'', ''missing'', ''c'']\<rparr>)"
  "getClassElements malformed ''m'' (fileOf [namelessExport]) =
     Inl (MissingExportedClassName ''m'' 1 7)"
  "getClassElements malformed ''c'' (fileOf [exportClass ''X'']) =
     Inr (emptyElements\<lparr>exportedClasses := objectOf [(''X'', classNamed ''X'')]\<rparr>)"
  by (simp_all add: malformed_def namelessExport_def extractor_defs fixture_defs)

lemma malformed_targets:
  "loadClassDeclaration malformed (plainReference n ''m'') ci =
     Some (Inl (MissingExportedClassName ''m'' 1 7))"
  "loadClassDeclaration malformed (plainReference n ''missing'') ci =
     Some (Inl (ParseFailure ''missing''))"
  "loadClassDeclaration malformed (plainReference ''X'' ''c'') False =
     Some (Inr (classOf (plainReference ''X'' ''c'') ''X'' [exportClass ''X'']))"
  "loadClassDeclaration malformed (plainReference ''Z'' ''c'') ci =
     Some (Inl (CouldNotLoad ci ''Z'' ''c''))"
proof -
  show "loadClassDeclaration malformed (plainReference n ''m'') ci =
      Some (Inl (MissingExportedClassName ''m'' 1 7))"
    by (subst loadClassDeclaration.simps) (simp add: malformed_parse malformed_elements)
  show "loadClassDeclaration malformed (plainReference n ''missing'') ci =
      Some (Inl (ParseFailure ''missing''))"
    by (subst loadClassDeclaration.simps) (simp add: malformed_parse)
  show "loadClassDeclaration malformed (plainReference ''X'' ''c'') False =
      Some (Inr (classOf (plainReference ''X'' ''c'') ''X'' [exportClass ''X'']))"
    unfolding load_in_file [OF malformed_parse(3) malformed_elements(3)]
    by (simp add: loadFromElements_def property_defs malformed_def package_loadedClass)
  show "loadClassDeclaration malformed (plainReference ''Z'' ''c'') ci =
      Some (Inl (CouldNotLoad ci ''Z'' ''c''))"
    unfolding load_in_file [OF malformed_parse(3) malformed_elements(3)]
    by (simp add: loadFromElements_def property_defs malformed_def)
qed

text \<open>
  C10. A file whose extraction fails makes the call on that file fail with the extraction
  error. In a caller that has reached its wildcard targets, which it does when no index it
  consults before answers \<^verbatim>\<open>localName in index\<close> with true, the targets that fail are
  skipped whatever their error is, and an error of the caller is always its own exhaustion
  error, never an error of a target.
\<close>

theorem wildcard_errors_suppressed:
  assumes "parseTypescriptFile env (fileName r) = Inr tree"
    and "getClassElements env (fileName r) tree = Inr els"
    and "\<not> declaredLocally env els ci (localName r)"
    and "\<not> hasProperty referenceKeys (importedElements els) (localName r)"
    and "\<not> hasProperty referenceKeys (exportedImportedElements els) (localName r)"
  shows
    "(parseTypescriptFile env s = Inr tree' \<and> getClassElements env s tree' = Inl e' \<longrightarrow>
        loadClassDeclaration env (plainReference (localName r) s) ci = Some (Inl e')) \<and>
     (exportedImportedAll els = pre @ rest \<and>
      (\<forall>s \<in> set pre. \<exists>e. loadClassDeclaration env (plainReference (localName r) s) ci
                           = Some (Inl e)) \<longrightarrow>
        loadClassDeclaration env r ci =
          loadFromExportAlls (\<lambda>t. loadClassDeclaration env t ci) (localName r) rest
            (CouldNotLoad ci (localName r) (fileName r))) \<and>
     (\<forall>e. loadClassDeclaration env r ci = Some (Inl e) \<longrightarrow>
        e = CouldNotLoad ci (localName r) (fileName r))"
proof (intro conjI impI allI)
  assume "parseTypescriptFile env s = Inr tree' \<and> getClassElements env s tree' = Inl e'"
  then show "loadClassDeclaration env (plainReference (localName r) s) ci = Some (Inl e')"
    by (subst loadClassDeclaration.simps) simp
next
  note loop = loadClassDeclaration_unfold [OF assms(1,2)] loadFromElements_wildcards [OF assms(3-5)]
  {
    assume "exportedImportedAll els = pre @ rest \<and>
      (\<forall>s \<in> set pre. \<exists>e. loadClassDeclaration env (plainReference (localName r) s) ci
                           = Some (Inl e))"
    then show "loadClassDeclaration env r ci =
        loadFromExportAlls (\<lambda>t. loadClassDeclaration env t ci) (localName r) rest
          (CouldNotLoad ci (localName r) (fileName r))"
      unfolding loop by (simp add: loadFromExportAlls_skip)
  }
  fix e
  assume "loadClassDeclaration env r ci = Some (Inl e)"
  then show "e = CouldNotLoad ci (localName r) (fileName r)"
    unfolding loop by (rule loadFromExportAlls_error)
qed

theorem wildcard_errors_suppressed_witness:
  "loadClassDeclaration malformed (plainReference ''X'' ''m'') False =
     Some (Inl (MissingExportedClassName ''m'' 1 7)) \<and>
   loadClassDeclaration malformed (plainReference ''X'' ''missing'') False =
     Some (Inl (ParseFailure ''missing'')) \<and>
   loadClassDeclaration malformed (plainReference ''X'' ''a'') False =
     Some (Inr (classOf (plainReference ''X'' ''c'') ''X'' [exportClass ''X''])) \<and>
   loadClassDeclaration malformed (plainReference ''Z'' ''a'') False =
     Some (Inl (CouldNotLoad False ''Z'' ''a''))"
proof -
  have p: "parseTypescriptFile malformed (fileName (plainReference n ''a'')) =
      Inr (fileOf [exportAll ''./m'', exportAll ''./missing'', exportAll ''./c''])" for n
    by (simp add: malformed_parse)
  have e: "getClassElements malformed (fileName (plainReference n ''a''))
      (fileOf [exportAll ''./m'', exportAll ''./missing'', exportAll ''./c'']) =
      Inr (emptyElements\<lparr>exportedImportedAll := [''m'', ''missing'', ''c'']\<rparr>)" for n
    by (simp add: malformed_elements)
  have route: "\<not> declaredLocally malformed
        (emptyElements\<lparr>exportedImportedAll := [''m'', ''missing'', ''c'']\<rparr>) False
        (localName (plainReference n ''a''))"
      "\<not> hasProperty referenceKeys
        (importedElements (emptyElements\<lparr>exportedImportedAll := [''m'', ''missing'', ''c'']\<rparr>))
        (localName (plainReference n ''a''))"
      "\<not> hasProperty referenceKeys
        (exportedImportedElements
           (emptyElements\<lparr>exportedImportedAll := [''m'', ''missing'', ''c'']\<rparr>))
        (localName (plainReference n ''a''))"
    if "n = ''X'' \<or> n = ''Z''" for n
    using that by (auto simp: property_defs)
  have inst: "(parseTypescriptFile malformed ''m'' = Inr (fileOf [namelessExport]) \<and>
        getClassElements malformed ''m'' (fileOf [namelessExport]) =
          Inl (MissingExportedClassName ''m'' 1 7) \<longrightarrow>
        loadClassDeclaration malformed (plainReference n ''m'') False =
          Some (Inl (MissingExportedClassName ''m'' 1 7))) \<and>
      ([''m'', ''missing'', ''c''] = [''m'', ''missing''] @ [''c''] \<and>
       (\<forall>s \<in> set [''m'', ''missing''].
          \<exists>e. loadClassDeclaration malformed (plainReference n s) False = Some (Inl e)) \<longrightarrow>
        loadClassDeclaration malformed (plainReference n ''a'') False =
          loadFromExportAlls (\<lambda>t. loadClassDeclaration malformed t False) n [''c'']
            (CouldNotLoad False n ''a''))" if "n = ''X'' \<or> n = ''Z''" for n
    using wildcard_errors_suppressed [OF p e route [OF that], of "''m''" "fileOf [namelessExport]"
        "MissingExportedClassName ''m'' 1 7" "[''m'', ''missing'']" "[''c'']"]
    by (simp add: emptyElements_def)
  have m: "loadClassDeclaration malformed (plainReference ''X'' ''m'') False =
      Some (Inl (MissingExportedClassName ''m'' 1 7))"
    using inst [of "''X''"] by (simp add: malformed_parse malformed_elements)
  have skip: "loadClassDeclaration malformed (plainReference n ''a'') False =
      loadFromExportAlls (\<lambda>t. loadClassDeclaration malformed t False) n [''c'']
        (CouldNotLoad False n ''a'')" if "n = ''X'' \<or> n = ''Z''" for n
    using inst [OF that] by (simp add: malformed_targets)
  from m skip [of "''X''"] skip [of "''Z''"] show ?thesis
    by (simp add: malformed_targets)
qed

section \<open>Re-exports without a source\<close>










section \<open>Default and namespace imports\<close>






section \<open>Cyclic re-exports\<close>







section \<open>Indirections\<close>

lemma structurallyEquivalent_refl [simp]: "structurallyEquivalent l l"
  by (cases l) simp_all

lemma enhance_same_names:
  assumes "enhanceLoadedWithComment env x = Inr l'"
    and "loaded_ast x' = loaded_ast x" and "declarationOf x' = declarationOf x"
    and "structurallyEquivalent x' x"
  shows "\<exists>l. enhanceLoadedWithComment env x' = Inr l \<and> structurallyEquivalent l l'"
  using assms
  by (cases x; cases x')
    (auto simp: enhanceLoadedWithComment_def split: sum.splits option.splits if_splits)

lemma loadedClass_same_names:
  "loadedClass env a found tree = Inr l' \<Longrightarrow>
   \<exists>l. loadedClass env b found tree = Inr l \<and> structurallyEquivalent l l'"
  unfolding loadedClass_def
  by (auto split: sum.splits prod.splits intro!: enhance_same_names)

lemma loadedInterface_same_names:
  "loadedInterface env a found tree = Inr l' \<Longrightarrow>
   \<exists>l. loadedInterface env b found tree = Inr l \<and> structurallyEquivalent l l'"
  unfolding loadedInterface_def
  by (auto split: sum.splits prod.splits intro!: enhance_same_names)

lemma split_at_target:
  "x \<in> set xs \<Longrightarrow> \<exists>post. xs = takeWhile (\<lambda>s. s \<noteq> x) xs @ x # post"
  by (induction xs) auto

lemma failed_iff: "failed result \<longleftrightarrow> (\<exists>e. result = Some (Inl e))"
  by (auto simp: failed_def split: option.splits sum.splits)

lemma indirection_step:
  assumes "indirection env ci r r'"
    and "loadClassDeclaration env r' ci = Some (Inr l)"
  shows "loadClassDeclaration env r ci = Some (Inr l)"
proof -
  from assms(1) obtain tree els where
    parsed: "parseTypescriptFile env (fileName r) = Inr tree"
      "getClassElements env (fileName r) tree = Inr els"
    and hop: "\<not> declaredLocally env els ci (localName r)"
      "(case getProperty referenceKeys (importedElements els) (localName r) of
          Some found \<Rightarrow> found = Inl r'
        | None \<Rightarrow>
            (case getProperty referenceKeys (exportedImportedElements els) (localName r) of
               Some found \<Rightarrow> found = Inl r'
             | None \<Rightarrow>
                 r' = plainReference (localName r) (fileName r') \<and>
                 fileName r' \<in> set (exportedImportedAll els) \<and>
                 (\<forall>s \<in> set (takeWhile (\<lambda>s. s \<noteq> fileName r') (exportedImportedAll els)).
                    failed (loadClassDeclaration env (plainReference (localName r) s) ci))))"
    unfolding indirection_def by (auto split: sum.splits)
  note unfold = loadClassDeclaration_unfold [OF parsed, of ci]
  show ?thesis
  proof (cases "getProperty referenceKeys (importedElements els) (localName r)")
    case (Some found)
    with hop assms(2) show ?thesis
      unfolding unfold loadFromElements_def declaredLocally_def hasProperty_def follow_def
      by auto
  next
    case None
    show ?thesis
    proof (cases "getProperty referenceKeys (exportedImportedElements els) (localName r)")
      case (Some found)
      with None hop assms(2) show ?thesis
        unfolding unfold loadFromElements_def declaredLocally_def hasProperty_def follow_def
        by auto
    next
      case none: None
      from hop(2) None none have r': "r' = plainReference (localName r) (fileName r')"
        and target: "fileName r' \<in> set (exportedImportedAll els)"
        and failures: "\<forall>s \<in> set (takeWhile (\<lambda>s. s \<noteq> fileName r') (exportedImportedAll els)).
            \<exists>e. loadClassDeclaration env (plainReference (localName r) s) ci = Some (Inl e)"
        by (simp_all add: failed_iff)
      from split_at_target [OF target] obtain post where
        split: "exportedImportedAll els =
          takeWhile (\<lambda>s. s \<noteq> fileName r') (exportedImportedAll els) @ fileName r' # post"
        by blast
      have "loadClassDeclaration env r ci =
          loadFromExportAlls (\<lambda>t. loadClassDeclaration env t ci) (localName r)
            (exportedImportedAll els) (CouldNotLoad ci (localName r) (fileName r))"
        unfolding unfold using hop(1) None none
        by (intro loadFromElements_wildcards) (simp_all add: hasProperty_def)
      also have "\<dots> =
          loadFromExportAlls (\<lambda>t. loadClassDeclaration env t ci) (localName r)
            (fileName r' # post) (CouldNotLoad ci (localName r) (fileName r))"
        by (subst split) (rule loadFromExportAlls_skip [OF failures])
      also have "\<dots> = Some (Inr l)"
        using assms(2) r' by simp
      finally show ?thesis .
    qed
  qed
qed

lemma indirections_chain:
  "indirections env ci r rs \<Longrightarrow> loadClassDeclaration env (last (r # rs)) ci = Some (Inr l) \<Longrightarrow>
   loadClassDeclaration env r ci = Some (Inr l)"
proof (induction rs arbitrary: r)
  case Nil
  then show ?case by simp
next
  case (Cons r' rs)
  from Cons.prems have hop: "indirection env ci r r'" and rest: "indirections env ci r' rs"
    and final: "loadClassDeclaration env (last (r' # rs)) ci = Some (Inr l)"
    by simp_all
  from rest final have "loadClassDeclaration env r' ci = Some (Inr l)"
    by (rule Cons.IH)
  with hop show ?case by (rule indirection_step)
qed

lemma loadFromElements_same_names:
  assumes "localName a = localName b" and "fileName a = fileName b"
    and "loadFromElements load env a ci tree els = Some (Inr l')"
  shows "\<exists>l. loadFromElements load env b ci tree els = Some (Inr l) \<and> structurallyEquivalent l l'"
  using assms unfolding loadFromElements_def
  by (auto split: option.splits if_splits
      dest: loadedClass_same_names [of env a _ tree l' b]
        loadedInterface_same_names [of env a _ tree l' b])

lemma load_same_names:
  assumes "localName a = localName b" and "fileName a = fileName b"
    and "loadClassDeclaration env a ci = Some (Inr l')"
  shows "\<exists>l. loadClassDeclaration env b ci = Some (Inr l) \<and> structurallyEquivalent l l'"
proof -
  from assms(3) obtain tree els where
    parsed: "parseTypescriptFile env (fileName a) = Inr tree"
      "getClassElements env (fileName a) tree = Inr els"
    by (subst (asm) loadClassDeclaration.simps) (auto split: sum.splits)
  from parsed assms(2) have parsed': "parseTypescriptFile env (fileName b) = Inr tree"
      "getClassElements env (fileName b) tree = Inr els"
    by simp_all
  from assms(3) have "loadFromElements (\<lambda>t. loadClassDeclaration env t ci) env a ci tree els
      = Some (Inr l')"
    by (simp add: loadClassDeclaration_unfold [OF parsed])
  from loadFromElements_same_names [OF assms(1,2) this]
  show ?thesis by (simp add: loadClassDeclaration_unfold [OF parsed'])
qed

lemma shadowing_parse:
  "parseTypescriptFile shadowing ''index'' = Inr (fileOf [exportAll ''./b'', exportAll ''./c''])"
  "parseTypescriptFile shadowing ''b'' = Inr (fileOf [ClassDeclaration (classNamed ''X'')])"
  "parseTypescriptFile shadowing ''c'' =
     Inr (fileOf [ExportNamedDeclaration (Some (ExportedClass shadowingClass)) None []])"
  by (simp_all add: shadowing_def shadowingFiles_def package_def)

lemma shadowing_elements:
  "getClassElements shadowing ''index'' (fileOf [exportAll ''./b'', exportAll ''./c'']) =
     Inr (emptyElements\<lparr>exportedImportedAll := [''b'', ''c'']\<rparr>)"
  "getClassElements shadowing ''b'' (fileOf [ClassDeclaration (classNamed ''X'')]) =
     Inr (emptyElements\<lparr>declaredClasses := objectOf [(''X'', classNamed ''X'')]\<rparr>)"
  "getClassElements shadowing ''c''
     (fileOf [ExportNamedDeclaration (Some (ExportedClass shadowingClass)) None []]) =
     Inr (emptyElements\<lparr>exportedClasses := objectOf [(''X'', shadowingClass)]\<rparr>)"
  by (simp_all add: shadowing_def shadowingFiles_def package_def shadowingClass_def
      extractor_defs fixture_defs)

lemma shadowing_b:
  "loadClassDeclaration shadowing (plainReference ''X'' ''b'') False =
     Some (Inr (classOf (plainReference ''X'' ''b'') ''X'' [ClassDeclaration (classNamed ''X'')]))"
  unfolding load_in_file [OF shadowing_parse(2) shadowing_elements(2)]
  by (simp add: loadFromElements_def property_defs shadowing_def package_loadedClass)

lemma shadowing_c:
  "loadClassDeclaration shadowing (plainReference ''X'' ''c'') False = Some (Inr shadowingLoaded)"
  unfolding load_in_file [OF shadowing_parse(3) shadowing_elements(3)]
  by (simp add: loadFromElements_def property_defs shadowingLoaded_def shadowingClass_def
      shadowing_def package_def loadedClass_def enhanceLoadedWithComment_def
      collectGenericTypes_def typeParameters_def parameter_def assign_def)

lemma shadowing_index:
  "loadClassDeclaration shadowing (plainReference ''X'' ''index'') False =
     Some (Inr (classOf (plainReference ''X'' ''b'') ''X'' [ClassDeclaration (classNamed ''X'')]))"
  unfolding load_in_file [OF shadowing_parse(1) shadowing_elements(1)]
  by (simp add: loadFromElements_def property_defs shadowing_b)

text \<open>
  C2, as stated, fails: a wildcard target that declares the name without exporting it
  answers before the target that exports it. In the package \<open>shadowing\<close> the file \<^verbatim>\<open>index\<close>
  is \<^verbatim>\<open>export * from './b'\<close>, \<^verbatim>\<open>export * from './c'\<close>; \<^verbatim>\<open>b\<close> declares \<^verbatim>\<open>class X {}\<close> without
  exporting it and \<^verbatim>\<open>c\<close> is \<^verbatim>\<open>export abstract class X<T extends Foo> {}\<close>. The wildcard
  target \<^verbatim>\<open>c\<close> is an indirection from \<^verbatim>\<open>X\<close> in \<^verbatim>\<open>index\<close> that ends at the declaration \<^verbatim>\<open>c\<close>
  exports, and resolving \<^verbatim>\<open>X\<close> in \<^verbatim>\<open>c\<close> returns that declaration; resolving \<^verbatim>\<open>X\<close> in
  \<^verbatim>\<open>index\<close> returns the class of \<^verbatim>\<open>b\<close>, which differs from it in declaration, syntax tree,
  generics and abstract flag.
\<close>

theorem unexported_declaration_answers_first:
  "statedIndirection shadowing (plainReference ''X'' ''index'') (plainReference ''X'' ''c'') \<and>
   loadClassDeclaration shadowing (plainReference ''X'' ''c'') False = Some (Inr shadowingLoaded) \<and>
   loadClassDeclaration shadowing (plainReference ''X'' ''index'') False =
     Some (Inr (classOf (plainReference ''X'' ''b'') ''X'' [ClassDeclaration (classNamed ''X'')])) \<and>
   \<not> structurallyEquivalent
       (classOf (plainReference ''X'' ''b'') ''X'' [ClassDeclaration (classNamed ''X'')])
       shadowingLoaded"
proof -
  have "statedIndirection shadowing (plainReference ''X'' ''index'') (plainReference ''X'' ''c'')"
    by (simp add: statedIndirection_def shadowing_parse shadowing_elements emptyElements_def
        emptyObject_def)
  moreover have "\<not> structurallyEquivalent
      (classOf (plainReference ''X'' ''b'') ''X'' [ClassDeclaration (classNamed ''X'')])
      shadowingLoaded"
    by (simp add: classOf_def shadowingLoaded_def classNamed_def shadowingClass_def)
  ultimately show ?thesis using shadowing_c shadowing_index by simp
qed

text \<open>
  C2, amended. Along any chain of indirections the loader takes (in the file of each
  reference no class or interface index the call consults answers \<^verbatim>\<open>localName in index\<close>
  with true; the next reference is the one \<^verbatim>\<open>importedElements\<close> holds for the name, else
  the one \<^verbatim>\<open>exportedImportedElements\<close> holds, else the name in a wildcard target before which
  every target fails), resolving the first reference returns exactly what resolving the last
  one returns; and resolving any reference with the last one's name and file returns a symbol
  with the same type tag, declaration, syntax tree, generics, abstract flag and comment.
\<close>

theorem indirection_transparent:
  "(indirections env ci r rs \<and> loadClassDeclaration env (last (r # rs)) ci = Some (Inr l) \<longrightarrow>
      loadClassDeclaration env r ci = Some (Inr l)) \<and>
   (indirections env ci r rs \<and> localName a = localName (last (r # rs)) \<and>
    fileName a = fileName (last (r # rs)) \<and> loadClassDeclaration env a ci = Some (Inr l') \<longrightarrow>
      (\<exists>l. loadClassDeclaration env r ci = Some (Inr l) \<and> structurallyEquivalent l l'))"
proof (intro conjI impI)
  assume "indirections env ci r rs \<and> loadClassDeclaration env (last (r # rs)) ci = Some (Inr l)"
  then show "loadClassDeclaration env r ci = Some (Inr l)"
    using indirections_chain by blast
next
  assume h: "indirections env ci r rs \<and> localName a = localName (last (r # rs)) \<and>
      fileName a = fileName (last (r # rs)) \<and> loadClassDeclaration env a ci = Some (Inr l')"
  then obtain l where "loadClassDeclaration env (last (r # rs)) ci = Some (Inr l)"
    and "structurallyEquivalent l l'"
    using load_same_names [of a "last (r # rs)" env ci l'] by auto
  with h show "\<exists>l. loadClassDeclaration env r ci = Some (Inr l) \<and> structurallyEquivalent l l'"
    using indirections_chain by blast
qed

lemma chain_parse:
  "parseTypescriptFile chain ''a'' =
     Inr (fileOf [ImportDeclaration (moduleSource ''./b'') [ImportSpecifier ''LB'' ''B'']])"
  "parseTypescriptFile chain ''b'' =
     Inr (fileOf [ExportNamedDeclaration None (Some (moduleSource ''./c''))
                    [\<lparr>specifier_local = ''C'', specifier_exported = ''B''\<rparr>]])"
  "parseTypescriptFile chain ''c'' = Inr (fileOf [exportAll ''./e'', exportAll ''./d''])"
  "parseTypescriptFile chain ''e'' = Inr (fileOf [exportClass ''Other''])"
  "parseTypescriptFile chain ''d'' =
     Inr (fileOf [ExportNamedDeclaration (Some (ExportedClass chainClass)) None []])"
  by (simp_all add: chain_def chainFiles_def package_def)

lemma chain_elements:
  "getClassElements chain ''a''
     (fileOf [ImportDeclaration (moduleSource ''./b'') [ImportSpecifier ''LB'' ''B'']]) =
     Inr (emptyElements\<lparr>importedElements := objectOf [(''LB'', plainReference ''B'' ''b'')]\<rparr>)"
  "getClassElements chain ''b''
     (fileOf [ExportNamedDeclaration None (Some (moduleSource ''./c''))
                [\<lparr>specifier_local = ''C'', specifier_exported = ''B''\<rparr>]]) =
     Inr (emptyElements
            \<lparr>exportedImportedElements := objectOf [(''B'', plainReference ''C'' ''c'')]\<rparr>)"
  "getClassElements chain ''c'' (fileOf [exportAll ''./e'', exportAll ''./d'']) =
     Inr (emptyElements\<lparr>exportedImportedAll := [''e'', ''d'']\<rparr>)"
  "getClassElements chain ''e'' (fileOf [exportClass ''Other'']) =
     Inr (emptyElements\<lparr>exportedClasses := objectOf [(''Other'', classNamed ''Other'')]\<rparr>)"
  "getClassElements chain ''d''
     (fileOf [ExportNamedDeclaration (Some (ExportedClass chainClass)) None []]) =
     Inr (emptyElements\<lparr>exportedClasses := objectOf [(''C'', chainClass)]\<rparr>)"
  by (simp_all add: chain_def chainFiles_def package_def chainClass_def extractor_defs
      fixture_defs)

lemma chain_e:
  "loadClassDeclaration chain (plainReference ''C'' ''e'') False =
     Some (Inl (CouldNotLoad False ''C'' ''e''))"
  unfolding load_in_file [OF chain_parse(4) chain_elements(4)]
  by (simp add: loadFromElements_def property_defs)

lemma chain_comment: "commentDescription chain tree d = Inr (Some ''A documented class'')"
  by (simp add: chain_def package_def)

lemma chain_d:
  assumes "localName r = ''C''" and "fileName r = ''d''"
  shows "loadClassDeclaration chain r False = Some (Inr (chainLoaded r))"
proof -
  have "loadClassDeclaration chain r False =
      loadFromElements (\<lambda>t. loadClassDeclaration chain t False) chain r False
        (fileOf [ExportNamedDeclaration (Some (ExportedClass chainClass)) None []])
        (emptyElements\<lparr>exportedClasses := objectOf [(''C'', chainClass)]\<rparr>)"
    by (rule loadClassDeclaration_unfold) (simp_all add: assms chain_parse chain_elements)
  also have "\<dots> = Some (Inr (chainLoaded r))"
    by (simp add: assms loadFromElements_def property_defs chainLoaded_def chainClass_def
        parameter_def chain_comment loadedClass_def enhanceLoadedWithComment_def
        collectGenericTypes_def typeParameters_def assign_def)
  finally show ?thesis .
qed

lemma chain_indirections:
  "indirections chain False (plainReference ''LB'' ''a'')
     [plainReference ''B'' ''b'', plainReference ''C'' ''c'', plainReference ''C'' ''d'']"
  by (simp add: indirection_def chain_parse chain_elements property_defs chain_e failed_def)

theorem indirection_transparent_witness:
  "loadClassDeclaration chain (plainReference ''LB'' ''a'') False =
     Some (Inr (chainLoaded (plainReference ''C'' ''d''))) \<and>
   loadClassDeclaration chain ((plainReference ''C'' ''d'')\<lparr>packageName := Some ''pkg''\<rparr>) False =
     Some (Inr (chainLoaded ((plainReference ''C'' ''d'')\<lparr>packageName := Some ''pkg''\<rparr>))) \<and>
   structurallyEquivalent (chainLoaded (plainReference ''C'' ''d''))
     (chainLoaded ((plainReference ''C'' ''d'')\<lparr>packageName := Some ''pkg''\<rparr>))"
proof -
  note inst = indirection_transparent
    [of chain False "plainReference ''LB'' ''a''"
        "[plainReference ''B'' ''b'', plainReference ''C'' ''c'', plainReference ''C'' ''d'']"
        "chainLoaded (plainReference ''C'' ''d'')"
        "(plainReference ''C'' ''d'')\<lparr>packageName := Some ''pkg''\<rparr>"
        "chainLoaded ((plainReference ''C'' ''d'')\<lparr>packageName := Some ''pkg''\<rparr>)"]
  have direct: "loadClassDeclaration chain (plainReference ''C'' ''d'') False =
      Some (Inr (chainLoaded (plainReference ''C'' ''d'')))"
    by (rule chain_d) simp_all
  have named: "loadClassDeclaration chain
      ((plainReference ''C'' ''d'')\<lparr>packageName := Some ''pkg''\<rparr>) False =
      Some (Inr (chainLoaded ((plainReference ''C'' ''d'')\<lparr>packageName := Some ''pkg''\<rparr>)))"
    by (rule chain_d) simp_all
  from inst chain_indirections direct
  have first: "loadClassDeclaration chain (plainReference ''LB'' ''a'') False =
      Some (Inr (chainLoaded (plainReference ''C'' ''d'')))"
    by simp
  from inst chain_indirections named
  have "\<exists>l. loadClassDeclaration chain (plainReference ''LB'' ''a'') False = Some (Inr l) \<and>
      structurallyEquivalent l
        (chainLoaded ((plainReference ''C'' ''d'')\<lparr>packageName := Some ''pkg''\<rparr>))"
    by simp
  with first have "structurallyEquivalent (chainLoaded (plainReference ''C'' ''d''))
      (chainLoaded ((plainReference ''C'' ''d'')\<lparr>packageName := Some ''pkg''\<rparr>))"
    by simp
  with first named show ?thesis by simp
qed

end
